theory Spec2Isabelle
  imports Main "HOL-Library.AList"
begin

section \<open>Python values, dictionaries and exceptions\<close>

text \<open>
  A setting value is a string or a boolean (the annotation \<^verbatim>\<open>Union[str, bool]\<close> of
  \<^verbatim>\<open>Settings.__getattr__\<close>); a member of a \<^verbatim>\<open>graphene.Enum\<close> class occurs as the
  default value of an input field. A dictionary keyed by setting names is a map.
\<close>

datatype pyval = Str string | Bool bool | EnumMember string string

type_synonym dict = "string \<rightharpoonup> pyval"

datatype error = AttributeError string | KeyError string

text \<open>The subscript \<^verbatim>\<open>d[name]\<close>, which raises \<^verbatim>\<open>KeyError\<close> on a missing key.\<close>

definition getitem :: "dict \<Rightarrow> string \<Rightarrow> error + pyval" where
  "getitem d name = (case d name of None \<Rightarrow> Inl (KeyError name) | Some v \<Rightarrow> Inr v)"

section \<open>conf.py\<close>

text \<open>
  What \<^verbatim>\<open>get_fixed_settings\<close> reads when the module is imported: the vendor of the
  database connection and the attribute
  \<^verbatim>\<open>GRAPHENE_DJANGO_FILTER_HAS_TRIGRAM_EXTENSION\<close> of the Django settings
  (\<open>None\<close> when the attribute is not set, where \<^verbatim>\<open>getattr\<close> falls back to \<^verbatim>\<open>False\<close>).
\<close>

record environment =
  connection_vendor :: string
  trigram_extension_setting :: "pyval option"

definition get_fixed_settings :: "environment \<Rightarrow> dict" where
  "get_fixed_settings env =
     (let is_postgresql = (connection_vendor env = ''postgresql'');
          has_trigram_extension =
            (case trigram_extension_setting env of None \<Rightarrow> Bool False | Some v \<Rightarrow> v)
      in [''IS_POSTGRESQL'' \<mapsto> Bool is_postgresql,
          ''HAS_TRIGRAM_EXTENSION'' \<mapsto> has_trigram_extension])"

definition FIXED_SETTINGS :: "environment \<Rightarrow> dict" where
  "FIXED_SETTINGS env = get_fixed_settings env"

definition DEFAULT_SETTINGS :: dict where
  "DEFAULT_SETTINGS =
     [''FILTER_KEY'' \<mapsto> Str ''filter'',
      ''AND_KEY'' \<mapsto> Str ''and'',
      ''OR_KEY'' \<mapsto> Str ''or'',
      ''NOT_KEY'' \<mapsto> Str ''not'']"

definition DJANGO_SETTINGS_KEY :: string where
  "DJANGO_SETTINGS_KEY = ''GRAPHENE_DJANGO_FILTER''"

text \<open>
  Dictionaries and instances of \<^verbatim>\<open>Settings\<close> are mutable objects that are shared by
  reference. An instance of the class \<^verbatim>\<open>Settings\<close> has the one attribute
  \<^verbatim>\<open>_user_settings\<close>, which is \<^verbatim>\<open>None\<close> or a reference to a dictionary.
\<close>

type_synonym ref = nat

record Settings =
  attr_user_settings :: "ref option"

text \<open>
  The state of the process holds
  \<^item> \<open>django_settings\<close>: the attribute \<^verbatim>\<open>GRAPHENE_DJANGO_FILTER\<close> of the Django
    settings, \<open>None\<close> when it is not set and a reference to a dictionary when it is
    (the property \<^verbatim>\<open>user_settings\<close> is annotated to return a \<^verbatim>\<open>dict\<close>);
  \<^item> \<open>dicts\<close> and \<open>next_dict\<close>: the contents of the dictionary objects and the next
    free reference to one;
  \<^item> \<open>heap\<close> and \<open>next_ref\<close>: the \<^verbatim>\<open>Settings\<close> objects and the next free reference;
  \<^item> \<open>settings\<close>: the module global \<^verbatim>\<open>conf.settings\<close>;
  \<^item> \<open>imported_settings\<close>: the name \<^verbatim>\<open>settings\<close> of the module input_types, bound by
    \<^verbatim>\<open>from .conf import settings\<close> when that module is imported;
  \<^item> \<open>classes\<close> and \<open>next_class\<close>: the classes made by calls of \<^verbatim>\<open>type\<close>.
\<close>

datatype cls = Declared string | Created ref

datatype gtype =
    GString | GBoolean | GFloat | GInt
  | GList gtype
  | GNonNull gtype
  | Class cls
  | Lazy cls

record input_field =
  field_type :: gtype
  default_value :: "pyval option"
  description :: string

record class_object =
  class_name :: string
  meta_fields :: "(pyval \<times> input_field) list"

record process =
  django_settings :: "ref option"
  dicts :: "ref \<Rightarrow> dict"
  next_dict :: ref
  heap :: "ref \<Rightarrow> Settings"
  next_ref :: ref
  settings :: ref
  imported_settings :: ref
  classes :: "ref \<Rightarrow> class_object option"
  next_class :: ref

text \<open>
  A dictionary display \<^verbatim>\<open>{...}\<close> makes a new dictionary object with the given
  content, and the assignment \<^verbatim>\<open>d[k] = v\<close> changes the content of the object \<open>d\<close> in
  place, for every holder of a reference to it.
\<close>

definition new_dict :: "dict \<Rightarrow> process \<Rightarrow> ref \<times> process" where
  "new_dict content s =
     (next_dict s,
      s\<lparr>dicts := (dicts s)(next_dict s := content), next_dict := Suc (next_dict s)\<rparr>)"

definition dict_setitem :: "ref \<Rightarrow> string \<Rightarrow> pyval \<Rightarrow> process \<Rightarrow> process" where
  "dict_setitem d k v s = s\<lparr>dicts := (dicts s)(d := (dicts s d)(k \<mapsto> v))\<rparr>"

text \<open>\<^verbatim>\<open>Settings(user_settings)\<close>: a new object, with the argument stored as it is.\<close>

definition Settings_init :: "ref option \<Rightarrow> process \<Rightarrow> ref \<times> process" where
  "Settings_init user_settings_arg s =
     (next_ref s,
      s\<lparr>heap := (heap s)(next_ref s := \<lparr>attr_user_settings = user_settings_arg\<rparr>),
        next_ref := Suc (next_ref s)\<rparr>)"

text \<open>
  The property \<^verbatim>\<open>user_settings\<close>: when the attribute is \<^verbatim>\<open>None\<close> it is set to
  \<^verbatim>\<open>getattr(django_settings, DJANGO_SETTINGS_KEY, {})\<close>, and the attribute is returned.
  The instance then refers to the very dictionary object of the Django settings, or
  to the new empty dictionary of the display \<^verbatim>\<open>{}\<close> when they have none. (When they
  have one, the dictionary of the display is dropped at once, and is left out here.)
\<close>

definition user_settings :: "ref \<Rightarrow> process \<Rightarrow> ref \<times> process" where
  "user_settings self s =
     (case attr_user_settings (heap s self) of
        None \<Rightarrow>
          (case django_settings s of
             Some h \<Rightarrow>
               (h, s\<lparr>heap := (heap s)(self := (heap s self)\<lparr>attr_user_settings := Some h\<rparr>)\<rparr>)
           | None \<Rightarrow>
               (case new_dict Map.empty s of
                  (e, s') \<Rightarrow>
                    (e, s'\<lparr>heap := (heap s')(self := (heap s' self)
                               \<lparr>attr_user_settings := Some e\<rparr>)\<rparr>)))
      | Some d \<Rightarrow> (d, s))"

text \<open>
  The method \<^verbatim>\<open>Settings.__getattr__\<close>, which Python calls for an attribute name that
  the instance and its class do not define themselves. The property is read once for
  the test \<^verbatim>\<open>name in self.user_settings\<close> and once more for the subscript; both look
  at the content that the dictionary object has at that moment.
\<close>

definition Settings_getattr ::
  "environment \<Rightarrow> ref \<Rightarrow> string \<Rightarrow> process \<Rightarrow> (error + pyval) \<times> process" where
  "Settings_getattr env self name s =
     (if FIXED_SETTINGS env name = None \<and> DEFAULT_SETTINGS name = None
      then (Inl (AttributeError (''Invalid Graphene setting: `'' @ name @ ''`'')), s)
      else if FIXED_SETTINGS env name \<noteq> None
      then (getitem (FIXED_SETTINGS env) name, s)
      else
        (case user_settings self s of
           (u, s1) \<Rightarrow>
             if dicts s1 u name \<noteq> None
             then (case user_settings self s1 of (u', s2) \<Rightarrow> (getitem (dicts s2 u') name, s2))
             else (getitem DEFAULT_SETTINGS name, s1)))"

text \<open>
  \<^verbatim>\<open>reload_settings\<close>, the receiver of the signal \<^verbatim>\<open>setting_changed\<close>. The value
  of the signal is \<^verbatim>\<open>None\<close> or a reference to a dictionary.
\<close>

definition reload_settings :: "string \<Rightarrow> ref option \<Rightarrow> process \<Rightarrow> process" where
  "reload_settings setting val s =
     (if setting = DJANGO_SETTINGS_KEY
      then (case Settings_init val s of (r, s') \<Rightarrow> s'\<lparr>settings := r\<rparr>)
      else s)"

text \<open>
  The content of the dictionary that the property yields for an instance: the user
  mapping that a lookup on the instance uses.
\<close>

definition active_user_settings :: "ref \<Rightarrow> process \<Rightarrow> dict" where
  "active_user_settings self s = (case user_settings self s of (u, s1) \<Rightarrow> dicts s1 u)"

text \<open>
  The process before the library is imported: no object yet but the dictionary of the
  Django settings, when the argument gives them one.
\<close>

definition start_process :: "dict option \<Rightarrow> process" where
  "start_process host =
     (let s = \<lparr>django_settings = None, dicts = (\<lambda>r. Map.empty), next_dict = 0,
               heap = (\<lambda>r. \<lparr>attr_user_settings = None\<rparr>),
               next_ref = 0, settings = 0, imported_settings = 0,
               classes = (\<lambda>r. None), next_class = 0\<rparr>
      in case host of
           None \<Rightarrow> s
         | Some content \<Rightarrow> (case new_dict content s of (d, s') \<Rightarrow> s'\<lparr>django_settings := Some d\<rparr>))"

text \<open>
  Importing conf.py (line 68): the global \<^verbatim>\<open>settings\<close> is bound to \<^verbatim>\<open>Settings(None)\<close>.
  The argument is the content of the attribute \<^verbatim>\<open>GRAPHENE_DJANGO_FILTER\<close> of the Django
  settings at that moment. No other module has bound \<^verbatim>\<open>settings\<close> yet, and no class
  has been made.
\<close>

definition import_conf :: "dict option \<Rightarrow> process" where
  "import_conf host =
     (case Settings_init None (start_process host)
      of (r, s) \<Rightarrow> s\<lparr>settings := r, imported_settings := r\<rparr>)"

section \<open>The graphene classes used by input_types.py\<close>

text \<open>
  \<^verbatim>\<open>graphene.InputField(type_, required=False, default_value=Undefined, description=None)\<close>:
  a required field has its type wrapped in \<^verbatim>\<open>NonNull\<close>. The default value \<open>None\<close>
  stands for \<^verbatim>\<open>Undefined\<close>. In \<open>gtype\<close>, \<open>Class c\<close> is a class given as a type and
  \<open>Lazy c\<close> is a function without arguments that returns the class \<open>c\<close>.
\<close>

definition InputField :: "gtype \<Rightarrow> bool \<Rightarrow> pyval option \<Rightarrow> string \<Rightarrow> input_field" where
  "InputField typ required dflt descr =
     \<lparr>field_type = (if required then GNonNull typ else typ),
      default_value = dflt, description = descr\<rparr>"

text \<open>
  A value bound to a name in the body of a class:
  \<^item> \<open>Mounted\<close>: an instance of \<^verbatim>\<open>graphene.InputField\<close>;
  \<^item> \<open>Unmounted\<close>: an instance of a scalar type such as
    \<^verbatim>\<open>graphene.String(required=True, description=...)\<close>, with its keyword arguments;
  \<^item> \<open>Tuple\<close>: a Python tuple (an expression followed by a comma);
  \<^item> \<open>Plain\<close>: any other value, such as the string bound to \<^verbatim>\<open>__doc__\<close>.
\<close>

datatype attr =
    Mounted input_field
  | Unmounted gtype bool "pyval option" string
  | Tuple "attr list"
  | Plain pyval

text \<open>
  graphene collects the fields of an \<^verbatim>\<open>InputObjectType\<close> from the namespace of the
  class: a field is kept, an unmounted type is mounted as an \<^verbatim>\<open>InputField\<close> with the
  same arguments, and every other value is skipped (\<^verbatim>\<open>get_field_as\<close> and
  \<^verbatim>\<open>yank_fields_from_attrs\<close> of graphene). The order of the collected fields,
  which graphene takes from the creation counters of the field objects, is not
  modelled: the statements below are about lookup and about the set of names.
\<close>

fun get_field_as :: "attr \<Rightarrow> input_field option" where
  "get_field_as (Mounted f) = Some f"
| "get_field_as (Unmounted t required dflt descr) = Some (InputField t required dflt descr)"
| "get_field_as (Tuple xs) = None"
| "get_field_as (Plain v) = None"

fun yank_fields_from_attrs :: "(pyval \<times> attr) list \<Rightarrow> (pyval \<times> input_field) list" where
  "yank_fields_from_attrs [] = []"
| "yank_fields_from_attrs ((attname, a) # attrs) =
     (case get_field_as a of
        None \<Rightarrow> yank_fields_from_attrs attrs
      | Some field \<Rightarrow> (attname, field) # yank_fields_from_attrs attrs)"

text \<open>
  A class statement with base \<^verbatim>\<open>graphene.InputObjectType\<close>, given by the name of the
  class and the assignments of its body in order.
\<close>

definition InputObjectType :: "string \<Rightarrow> (pyval \<times> attr) list \<Rightarrow> class_object" where
  "InputObjectType name namespace =
     \<lparr>class_name = name, meta_fields = yank_fields_from_attrs namespace\<rparr>"

text \<open>
  A dictionary display \<^verbatim>\<open>{k1: v1, k2: v2, ...}\<close>: the entries are stored from left
  to right, and a key that is already present keeps its place and gets the new value.
\<close>

definition dict_display :: "('k \<times> 'v) list \<Rightarrow> ('k \<times> 'v) list" where
  "dict_display entries = foldl (\<lambda>d (k, v). AList.update k v d) [] entries"

text \<open>
  Some names of a class namespace have a meaning of their own for \<^verbatim>\<open>type\<close> and for
  graphene, among them \<^verbatim>\<open>Meta\<close> and names that begin with an underscore. A plain name
  is a string that is none of these.
\<close>

fun plain_name :: "pyval \<Rightarrow> bool" where
  "plain_name (Str n) =
     (n \<noteq> ''Meta'' \<and> (case n of [] \<Rightarrow> True | c # cs \<Rightarrow> c \<noteq> CHR ''_''))"
| "plain_name (Bool b) = False"
| "plain_name (EnumMember c m) = False"

text \<open>A name between single quotes, as Python writes it in a message.\<close>

definition quoted :: "string \<Rightarrow> string" where
  "quoted n = CHR 0x27 # n @ [CHR 0x27]"

text \<open>
  The call \<^verbatim>\<open>type(name, (graphene.InputObjectType,), namespace)\<close>. The result \<open>None\<close>
  stands for a call whose outcome is not modelled; otherwise the result is what the call
  returns or raises, with the process after it.
  \<^item> With plain names only, besides \<^verbatim>\<open>__doc__\<close> bound to a string or not bound, the
    call makes a new class object, distinct from every class made before.
  \<^item> With \<^verbatim>\<open>__doc__\<close> bound to an input field, graphene takes the field for the
    docstring of the class, and cleaning it as a string raises \<^verbatim>\<open>AttributeError\<close>; no
    class remains.
  \<^item> Every other namespace (another name that is not plain, or \<^verbatim>\<open>__doc__\<close> bound to
    any other value) is not modelled.
\<close>

definition type_call ::
  "string \<Rightarrow> (pyval \<times> attr) list \<Rightarrow> process \<Rightarrow> ((error + cls) \<times> process) option" where
  "type_call name namespace s =
     (if list_all (\<lambda>(k, a). k = Str ''__doc__'' \<or> plain_name k) namespace
      then
        (case map_of namespace (Str ''__doc__'') of
           Some (Mounted f) \<Rightarrow>
             Some (Inl (AttributeError
                          (quoted ''InputField'' @ '' object has no attribute ''
                           @ quoted ''expandtabs'')), s)
         | Some (Unmounted t required dflt descr) \<Rightarrow> None
         | Some (Tuple xs) \<Rightarrow> None
         | Some (Plain (Bool b)) \<Rightarrow> None
         | Some (Plain (EnumMember c m)) \<Rightarrow> None
         | _ \<Rightarrow>
             Some (Inr (Created (next_class s)),
                   s\<lparr>classes := (classes s)(next_class s := Some (InputObjectType name namespace)),
                     next_class := Suc (next_class s)\<rparr>))
      else None)"

text \<open>
  Sequencing of calls that may raise: the first exception ends the function. The
  result is \<open>None\<close> when the outcome of the last call is not modelled.
\<close>

definition bind ::
  "(process \<Rightarrow> (error + 'a) \<times> process) \<Rightarrow>
   ('a \<Rightarrow> process \<Rightarrow> ((error + 'b) \<times> process) option) \<Rightarrow>
   process \<Rightarrow> ((error + 'b) \<times> process) option" where
  "bind m f s = (case m s of (Inl e, s') \<Rightarrow> Some (Inl e, s') | (Inr x, s') \<Rightarrow> f x s')"

section \<open>input_types.py\<close>

text \<open>A \<^verbatim>\<open>graphene.Enum\<close> class is the list of its members, each with its value.\<close>

type_synonym enum_class = "(string \<times> string) list"

definition SearchConfigInputType :: class_object where
  "SearchConfigInputType = InputObjectType ''SearchConfigInputType''
     [(Str ''value'',
         Unmounted GString False None ''`SearchVector` or `SearchQuery` object config value''),
      (Str ''is_field'',
         Unmounted GBoolean False (Some (Bool False))
           ''Whether to wrap the value with the F object'')]"

definition SearchVectorWeight :: enum_class where
  "SearchVectorWeight = [(''A'', ''A''), (''B'', ''B''), (''C'', ''C''), (''D'', ''D'')]"

definition SearchVectorInputType :: class_object where
  "SearchVectorInputType = InputObjectType ''SearchVectorInputType''
     [(Str ''fields'',
         Mounted (InputField (GList (GNonNull GString)) True None ''Field names of vector'')),
      (Str ''config'',
         Tuple [Mounted (InputField (Class (Declared ''SearchConfigInputType'')) False None
                         ''Vector config'')]),
      (Str ''weight'',
         Mounted (InputField (Class (Declared ''SearchVectorWeight'')) False None
                  ''Vector weight''))]"

definition SearchQueryType :: enum_class where
  "SearchQueryType =
     [(''PLAIN'', ''plain''), (''PHRASE'', ''phrase''), (''RAW'', ''raw''),
      (''WEBSEARCH'', ''websearch'')]"

text \<open>
  \<^verbatim>\<open>create_search_query_input_type\<close>. The name \<^verbatim>\<open>settings\<close> is the one bound in this
  module by the import. The three keys are looked up in the order of the dictionary
  display. Each \<^verbatim>\<open>lambda: search_query_input_type\<close> returns the value of the local
  variable, which is the class that the call of \<^verbatim>\<open>type\<close> returns.
\<close>

definition create_search_query_input_type ::
  "environment \<Rightarrow> process \<Rightarrow> ((error + cls) \<times> process) option" where
  "create_search_query_input_type env s0 =
     bind (Settings_getattr env (imported_settings s0) ''AND_KEY'') (\<lambda>and_key.
     bind (Settings_getattr env (imported_settings s0) ''OR_KEY'') (\<lambda>or_key.
     bind (Settings_getattr env (imported_settings s0) ''NOT_KEY'') (\<lambda>not_key s.
       let search_query_input_type = Created (next_class s)
       in type_call ''SearchQueryInputType''
                  (dict_display
                     [(Str ''__doc__'',
                         Plain (Str ''Input type for creating the `SearchQuery` object.'')),
                      (Str ''value'', Unmounted GString True None ''Query value''),
                      (Str ''config'',
                         Mounted (InputField (Class (Declared ''SearchConfigInputType'')) False None
                                  ''Query config'')),
                      (and_key,
                         Mounted (InputField (GList (Lazy search_query_input_type)) False None
                                  ''`And` field'')),
                      (or_key,
                         Mounted (InputField (GList (Lazy search_query_input_type)) False None
                                  ''`Or` field'')),
                      (not_key,
                         Mounted (InputField (GList (Lazy search_query_input_type)) False None
                                  ''`Not` field''))])
                  s))) s0"

text \<open>
  Importing input_types.py: the import of line 7 binds \<^verbatim>\<open>settings\<close> to the object that
  \<^verbatim>\<open>conf.settings\<close> refers to at that moment, and line 79 calls the factory. The result
  is the class bound to \<^verbatim>\<open>SearchQueryInputType\<close>.
\<close>

definition import_input_types ::
  "environment \<Rightarrow> process \<Rightarrow> ((error + cls) \<times> process) option" where
  "import_input_types env s =
     create_search_query_input_type env (s\<lparr>imported_settings := settings s\<rparr>)"

text \<open>
  The classes below refer to the class bound to \<^verbatim>\<open>SearchQueryInputType\<close>, which is
  their argument.
\<close>

definition SearchQueryFilterInputType :: "cls \<Rightarrow> class_object" where
  "SearchQueryFilterInputType SearchQueryInputType = InputObjectType ''SearchQueryFilterInputType''
     [(Str ''vector'',
         Mounted (InputField (Class (Declared ''SearchVectorInputType'')) True None
                  ''Search vector'')),
      (Str ''query'',
         Mounted (InputField (Class SearchQueryInputType) True None ''Search query''))]"

definition FloatLookups :: class_object where
  "FloatLookups = InputObjectType ''FloatLookups''
     [(Str ''exact'', Unmounted GFloat False None ''Is exact''),
      (Str ''gt'', Unmounted GFloat False None ''Is greater than''),
      (Str ''gte'', Unmounted GFloat False None ''Is greater than or equal to''),
      (Str ''lt'', Unmounted GFloat False None ''Is less than''),
      (Str ''lte'', Unmounted GFloat False None ''Is less than or equal to'')]"

definition SearchRankFilterInputType :: "cls \<Rightarrow> class_object" where
  "SearchRankFilterInputType SearchQueryInputType = InputObjectType ''SearchRankFilterInputType''
     [(Str ''vector'',
         Mounted (InputField (Class (Declared ''SearchVectorInputType'')) True None
                  ''Search vector'')),
      (Str ''query'',
         Mounted (InputField (Class SearchQueryInputType) True None ''Search query'')),
      (Str ''lookups'',
         Mounted (InputField (Class (Declared ''FloatLookups'')) True None ''Available lookups'')),
      (Str ''weights'',
         Tuple [Mounted (InputField (GList GFloat) False None ''Search rank weights'')]),
      (Str ''cover_density'',
         Unmounted GBoolean False None ''Whether to include coverage density ranking''),
      (Str ''normalization'', Unmounted GInt False None ''Search rank normalization'')]"

definition TrigramSearchKind :: enum_class where
  "TrigramSearchKind = [(''SIMILARITY'', ''similarity''), (''DISTANCE'', ''distance'')]"

definition TrigramFilterInputType :: class_object where
  "TrigramFilterInputType = InputObjectType ''TrigramFilterInputType''
     [(Str ''kind'',
         Mounted (InputField (Class (Declared ''TrigramSearchKind'')) False
                  (Some (EnumMember ''TrigramSearchKind'' ''SIMILARITY''))
                  ''Type of the search using trigrams'')),
      (Str ''lookups'',
         Mounted (InputField (Class (Declared ''FloatLookups'')) True None ''Available lookups'')),
      (Str ''value'', Unmounted GString True None ''Search value'')]"

section \<open>Following fields through nested input types\<close>

text \<open>
  \<open>named_class\<close> is the class that a type names, directly or through a function that
  returns it, and \<open>item_class\<close> is the class of the items of a list type. \<open>descend\<close>
  starts at a class and follows a path of field names, each of which has to be a field
  whose type is a list of some class; it returns the class reached.
\<close>

fun named_class :: "gtype \<Rightarrow> cls option" where
  "named_class (Class c) = Some c"
| "named_class (Lazy c) = Some c"
| "named_class (GNonNull t) = named_class t"
| "named_class t = None"

fun item_class :: "gtype \<Rightarrow> cls option" where
  "item_class (GList t) = named_class t"
| "item_class (GNonNull t) = item_class t"
| "item_class t = None"

fun descend :: "(ref \<Rightarrow> class_object option) \<Rightarrow> cls \<Rightarrow> pyval list \<Rightarrow> cls option" where
  "descend cs c [] = Some c"
| "descend cs (Declared n) (k # ks) = None"
| "descend cs (Created r) (k # ks) =
     (case cs r of
        None \<Rightarrow> None
      | Some co \<Rightarrow>
          (case map_of (meta_fields co) k of
             None \<Rightarrow> None
           | Some f \<Rightarrow>
               (case item_class (field_type f) of
                  None \<Rightarrow> None
                | Some c' \<Rightarrow> descend cs c' ks)))"

text \<open>
  The value of a default key under a user mapping with content \<open>u\<close>, where \<open>d\<close> is its
  static default.
\<close>

definition resolved_key :: "dict \<Rightarrow> string \<Rightarrow> pyval \<Rightarrow> pyval" where
  "resolved_key u name d = (case u name of None \<Rightarrow> d | Some v \<Rightarrow> v)"

section \<open>Example inputs\<close>

text \<open>
  A PostgreSQL connection without the trigram setting; a user mapping that renames
  the \<^verbatim>\<open>and\<close> key, tries to override a fixed setting and holds a name that is no
  setting; the process after a notification with a new dictionary of that content; a
  process whose Django settings hold that mapping when conf.py is imported; a user
  mapping that names the \<^verbatim>\<open>and\<close> key \<^verbatim>\<open>__doc__\<close>, and a process whose Django settings
  hold it.
\<close>

definition example_env :: environment where
  "example_env = \<lparr>connection_vendor = ''postgresql'', trigram_extension_setting = None\<rparr>"

definition example_override :: dict where
  "example_override = [''AND_KEY'' \<mapsto> Str ''all_of'', ''IS_POSTGRESQL'' \<mapsto> Bool False,
                       ''FILTER'' \<mapsto> Str ''where'']"

definition empty_dict :: dict where
  "empty_dict = Map.empty"

definition example_process :: process where
  "example_process =
     (case new_dict example_override (import_conf None) of
        (d, s) \<Rightarrow> reload_settings DJANGO_SETTINGS_KEY (Some d) s)"

definition host_process :: process where
  "host_process = import_conf (Some example_override)"

definition doc_override :: dict where
  "doc_override = [''AND_KEY'' \<mapsto> Str ''__doc__'']"

definition doc_process :: process where
  "doc_process = import_conf (Some doc_override)"

section \<open>Properties of the settings\<close>

lemma FIXED_SETTINGS_keys:
  "FIXED_SETTINGS env name \<noteq> None \<longleftrightarrow> name = ''IS_POSTGRESQL'' \<or> name = ''HAS_TRIGRAM_EXTENSION''"
  by (simp add: FIXED_SETTINGS_def get_fixed_settings_def Let_def)

lemma DEFAULT_SETTINGS_keys:
  "DEFAULT_SETTINGS name \<noteq> None \<longleftrightarrow>
     name = ''FILTER_KEY'' \<or> name = ''AND_KEY'' \<or> name = ''OR_KEY'' \<or> name = ''NOT_KEY''"
  by (simp add: DEFAULT_SETTINGS_def)

lemma default_not_fixed:
  "DEFAULT_SETTINGS name = Some d \<Longrightarrow> FIXED_SETTINGS env name = None"
  using FIXED_SETTINGS_keys [of env name] DEFAULT_SETTINGS_keys [of name] by auto

lemma user_settings_cached:
  "attr_user_settings (heap s self) = Some d \<Longrightarrow> user_settings self s = (d, s)"
  by (simp add: user_settings_def)

lemma user_settings_host:
  "attr_user_settings (heap s self) = None \<Longrightarrow> django_settings s = Some h \<Longrightarrow>
   user_settings self s =
     (h, s\<lparr>heap := (heap s)(self := (heap s self)\<lparr>attr_user_settings := Some h\<rparr>)\<rparr>)"
  by (simp add: user_settings_def)

lemma user_settings_no_host:
  "attr_user_settings (heap s self) = None \<Longrightarrow> django_settings s = None \<Longrightarrow>
   user_settings self s =
     (next_dict s,
      s\<lparr>dicts := (dicts s)(next_dict s := Map.empty), next_dict := Suc (next_dict s),
        heap := (heap s)(self := (heap s self)\<lparr>attr_user_settings := Some (next_dict s)\<rparr>)\<rparr>)"
  by (simp add: user_settings_def new_dict_def)

lemma user_settings_stored:
  "attr_user_settings (heap (snd (user_settings self s)) self) = Some (fst (user_settings self s))"
  by (simp add: user_settings_def new_dict_def split: option.splits)

lemma user_settings_again:
  "user_settings self (snd (user_settings self s)) = user_settings self s"
  by (cases "user_settings self s") (use user_settings_stored [of self s] in \<open>simp add: user_settings_cached\<close>)

lemma user_settings_frame:
  "imported_settings (snd (user_settings self s)) = imported_settings s"
  "next_class (snd (user_settings self s)) = next_class s"
  "classes (snd (user_settings self s)) = classes s"
  "settings (snd (user_settings self s)) = settings s"
  "django_settings (snd (user_settings self s)) = django_settings s"
  by (simp_all add: user_settings_def new_dict_def split: option.splits)

lemma Settings_getattr_default_key:
  assumes "DEFAULT_SETTINGS name = Some d"
  shows "Settings_getattr env self name s =
           (Inr (case active_user_settings self s name of None \<Rightarrow> d | Some v \<Rightarrow> v),
            snd (user_settings self s))"
proof -
  have nf: "FIXED_SETTINGS env name = None" using assms by (rule default_not_fixed)
  obtain u s1 where us: "user_settings self s = (u, s1)" by (cases "user_settings self s")
  have again: "user_settings self s1 = (u, s1)"
    using user_settings_again [of self s] us by simp
  show ?thesis
    by (simp add: Settings_getattr_def nf assms us again getitem_def active_user_settings_def
        split: option.splits)
qed

lemma Settings_getattr_fixed_key:
  assumes "FIXED_SETTINGS env name = Some v"
  shows "Settings_getattr env self name s = (Inr v, s)"
  using assms by (simp add: Settings_getattr_def getitem_def)

lemma Settings_getattr_cached:
  assumes "attr_user_settings (heap s self) = Some c"
  shows "Settings_getattr env self name s =
           ((if FIXED_SETTINGS env name = None \<and> DEFAULT_SETTINGS name = None
             then Inl (AttributeError (''Invalid Graphene setting: `'' @ name @ ''`''))
             else if FIXED_SETTINGS env name \<noteq> None then getitem (FIXED_SETTINGS env) name
             else if dicts s c name \<noteq> None then getitem (dicts s c) name
             else getitem DEFAULT_SETTINGS name), s)"
  by (simp add: Settings_getattr_def user_settings_cached [OF assms])

lemma active_user_settings_cached:
  "attr_user_settings (heap s self) = Some c \<Longrightarrow> active_user_settings self s = dicts s c"
  by (simp add: active_user_settings_def user_settings_cached)

lemma import_conf_None_eq:
  "import_conf None =
     \<lparr>django_settings = None, dicts = (\<lambda>r. Map.empty), next_dict = 0,
      heap = (\<lambda>r. \<lparr>attr_user_settings = None\<rparr>),
      next_ref = Suc 0, settings = 0, imported_settings = 0,
      classes = (\<lambda>r. None), next_class = 0\<rparr>"
  by (simp add: import_conf_def start_process_def Settings_init_def fun_eq_iff)

lemma import_conf_Some_eq:
  "import_conf (Some content) =
     \<lparr>django_settings = Some 0, dicts = (\<lambda>r. Map.empty)(0 := content), next_dict = Suc 0,
      heap = (\<lambda>r. \<lparr>attr_user_settings = None\<rparr>),
      next_ref = Suc 0, settings = 0, imported_settings = 0,
      classes = (\<lambda>r. None), next_class = 0\<rparr>"
  by (simp add: import_conf_def start_process_def Settings_init_def new_dict_def fun_eq_iff)

lemma reload_settings_eq:
  "reload_settings DJANGO_SETTINGS_KEY val s =
     s\<lparr>heap := (heap s)(next_ref s := \<lparr>attr_user_settings = val\<rparr>),
       next_ref := Suc (next_ref s), settings := next_ref s\<rparr>"
  by (simp add: reload_settings_def Settings_init_def)

lemma example_process_eq:
  "example_process =
     \<lparr>django_settings = None, dicts = (\<lambda>r. Map.empty)(0 := example_override), next_dict = Suc 0,
      heap = (\<lambda>r. \<lparr>attr_user_settings = None\<rparr>)(Suc 0 := \<lparr>attr_user_settings = Some 0\<rparr>),
      next_ref = Suc (Suc 0), settings = Suc 0, imported_settings = 0,
      classes = (\<lambda>r. None), next_class = 0\<rparr>"
  by (simp add: example_process_def new_dict_def import_conf_None_eq reload_settings_eq)

lemma example_process_active:
  "active_user_settings (settings example_process) example_process = example_override"
  by (simp add: active_user_settings_cached [where c = 0] example_process_eq)

lemma host_process_eq:
  "host_process =
     \<lparr>django_settings = Some 0, dicts = (\<lambda>r. Map.empty)(0 := example_override),
      next_dict = Suc 0, heap = (\<lambda>r. \<lparr>attr_user_settings = None\<rparr>),
      next_ref = Suc 0, settings = 0, imported_settings = 0,
      classes = (\<lambda>r. None), next_class = 0\<rparr>"
  by (simp add: host_process_def import_conf_Some_eq)

text \<open>
  C1. A lookup returns the fixed value when the name is a fixed key. Otherwise, when
  the name is a default key, it returns the value that the user mapping holds for it
  (the content of the dictionary that the property \<^verbatim>\<open>user_settings\<close> yields) if the
  name is in that mapping, and the static default if it is not. So a user value
  overrides a default and never overrides a fixed value.
\<close>

theorem Settings_getattr_resolution:
  "(\<forall>v. FIXED_SETTINGS env name = Some v \<longrightarrow>
        fst (Settings_getattr env self name s) = Inr v) \<and>
   (\<forall>d u. FIXED_SETTINGS env name = None \<longrightarrow> DEFAULT_SETTINGS name = Some d \<longrightarrow>
        active_user_settings self s name = Some u \<longrightarrow>
        fst (Settings_getattr env self name s) = Inr u) \<and>
   (\<forall>d. FIXED_SETTINGS env name = None \<longrightarrow> DEFAULT_SETTINGS name = Some d \<longrightarrow>
        active_user_settings self s name = None \<longrightarrow>
        fst (Settings_getattr env self name s) = Inr d)"
  by (simp add: Settings_getattr_fixed_key Settings_getattr_default_key)

theorem Settings_getattr_resolution_witness:
  "FIXED_SETTINGS example_env ''IS_POSTGRESQL'' = Some (Bool True) \<and>
   active_user_settings (settings example_process) example_process ''IS_POSTGRESQL''
     = Some (Bool False) \<and>
   fst (Settings_getattr example_env (settings example_process) ''IS_POSTGRESQL'' example_process)
     = Inr (Bool True) \<and>
   FIXED_SETTINGS example_env ''AND_KEY'' = None \<and>
   DEFAULT_SETTINGS ''AND_KEY'' = Some (Str ''and'') \<and>
   active_user_settings (settings example_process) example_process ''AND_KEY''
     = Some (Str ''all_of'') \<and>
   fst (Settings_getattr example_env (settings example_process) ''AND_KEY'' example_process)
     = Inr (Str ''all_of'') \<and>
   FIXED_SETTINGS example_env ''OR_KEY'' = None \<and>
   DEFAULT_SETTINGS ''OR_KEY'' = Some (Str ''or'') \<and>
   active_user_settings (settings example_process) example_process ''OR_KEY'' = None \<and>
   fst (Settings_getattr example_env (settings example_process) ''OR_KEY'' example_process)
     = Inr (Str ''or'')"
proof -
  have f1: "FIXED_SETTINGS example_env ''IS_POSTGRESQL'' = Some (Bool True)"
    by (simp add: FIXED_SETTINGS_def get_fixed_settings_def example_env_def)
  have f2: "FIXED_SETTINGS example_env ''AND_KEY'' = None"
    by (simp add: FIXED_SETTINGS_def get_fixed_settings_def example_env_def)
  have f3: "FIXED_SETTINGS example_env ''OR_KEY'' = None"
    by (simp add: FIXED_SETTINGS_def get_fixed_settings_def example_env_def)
  have d2: "DEFAULT_SETTINGS ''AND_KEY'' = Some (Str ''and'')"
    by (simp add: DEFAULT_SETTINGS_def)
  have d3: "DEFAULT_SETTINGS ''OR_KEY'' = Some (Str ''or'')"
    by (simp add: DEFAULT_SETTINGS_def)
  have u1: "active_user_settings (settings example_process) example_process ''IS_POSTGRESQL''
              = Some (Bool False)"
    by (simp add: example_process_active example_override_def)
  have u2: "active_user_settings (settings example_process) example_process ''AND_KEY''
              = Some (Str ''all_of'')"
    by (simp add: example_process_active example_override_def)
  have u3: "active_user_settings (settings example_process) example_process ''OR_KEY'' = None"
    by (simp add: example_process_active example_override_def)
  note r1 = Settings_getattr_resolution
      [of example_env "''IS_POSTGRESQL''" "settings example_process" example_process]
  note r2 = Settings_getattr_resolution
      [of example_env "''AND_KEY''" "settings example_process" example_process]
  note r3 = Settings_getattr_resolution
      [of example_env "''OR_KEY''" "settings example_process" example_process]
  from r1 f1 have g1: "fst (Settings_getattr example_env (settings example_process)
                              ''IS_POSTGRESQL'' example_process) = Inr (Bool True)" by blast
  from r2 f2 d2 u2 have g2: "fst (Settings_getattr example_env (settings example_process)
                              ''AND_KEY'' example_process) = Inr (Str ''all_of'')" by blast
  from r3 f3 d3 u3 have g3: "fst (Settings_getattr example_env (settings example_process)
                              ''OR_KEY'' example_process) = Inr (Str ''or'')" by blast
  from f1 u1 g1 f2 d2 u2 g2 f3 d3 u3 g3 show ?thesis by (intro conjI)
qed

text \<open>
  C8. For a name that is neither a fixed key nor a default key the lookup raises
  \<^verbatim>\<open>AttributeError\<close> with a message that contains the name, whatever the user mapping
  holds, and the process is left as it was. The exception is the result of the lookup:
  nothing catches it.
\<close>

theorem Settings_getattr_unknown:
  assumes "FIXED_SETTINGS env name = None" and "DEFAULT_SETTINGS name = None"
  shows "Settings_getattr env self name s =
           (Inl (AttributeError (''Invalid Graphene setting: `'' @ name @ ''`'')), s)"
  using assms by (simp add: Settings_getattr_def)

theorem Settings_getattr_unknown_witness:
  "FIXED_SETTINGS example_env ''FILTER'' = None \<and> DEFAULT_SETTINGS ''FILTER'' = None \<and>
   active_user_settings (settings example_process) example_process ''FILTER''
     = Some (Str ''where'') \<and>
   Settings_getattr example_env (settings example_process) ''FILTER'' example_process =
     (Inl (AttributeError ''Invalid Graphene setting: `FILTER`''), example_process)"
proof -
  have f: "FIXED_SETTINGS example_env ''FILTER'' = None"
    by (simp add: FIXED_SETTINGS_def get_fixed_settings_def example_env_def)
  have d: "DEFAULT_SETTINGS ''FILTER'' = None"
    by (simp add: DEFAULT_SETTINGS_def)
  have u: "active_user_settings (settings example_process) example_process ''FILTER''
             = Some (Str ''where'')"
    by (simp add: example_process_active example_override_def)
  show ?thesis
    using Settings_getattr_unknown [OF f d, of "settings example_process" example_process] f d u
    by simp
qed

text \<open>
  C7. A notification for any other key than \<^verbatim>\<open>GRAPHENE_DJANGO_FILTER\<close> changes nothing:
  the process is the same, \<^verbatim>\<open>conf.settings\<close> refers to the same object with the same
  contents, and every lookup gives what it gave before.
\<close>

theorem reload_settings_other_key:
  assumes "setting \<noteq> DJANGO_SETTINGS_KEY"
  shows "reload_settings setting val s = s \<and>
         settings (reload_settings setting val s) = settings s \<and>
         heap (reload_settings setting val s) (settings s) = heap s (settings s) \<and>
         Settings_getattr env (settings (reload_settings setting val s)) name
             (reload_settings setting val s)
           = Settings_getattr env (settings s) name s"
  using assms by (simp add: reload_settings_def)

theorem reload_settings_other_key_witness:
  "''DEBUG'' \<noteq> DJANGO_SETTINGS_KEY \<and>
   reload_settings ''DEBUG'' (Some (fst (new_dict example_override (import_conf None))))
       (snd (new_dict example_override (import_conf None)))
     = snd (new_dict example_override (import_conf None)) \<and>
   fst (Settings_getattr example_env
          (settings (reload_settings ''DEBUG''
                       (Some (fst (new_dict example_override (import_conf None))))
                       (snd (new_dict example_override (import_conf None)))))
          ''AND_KEY''
          (reload_settings ''DEBUG'' (Some (fst (new_dict example_override (import_conf None))))
             (snd (new_dict example_override (import_conf None)))))
     = Inr (Str ''and'')"
proof -
  let ?d = "fst (new_dict example_override (import_conf None))"
  let ?s = "snd (new_dict example_override (import_conf None))"
  have h: "''DEBUG'' \<noteq> DJANGO_SETTINGS_KEY" by (simp add: DJANGO_SETTINGS_KEY_def)
  have d: "DEFAULT_SETTINGS ''AND_KEY'' = Some (Str ''and'')" by (simp add: DEFAULT_SETTINGS_def)
  have a: "active_user_settings (settings ?s) ?s = Map.empty"
    by (simp add: active_user_settings_def import_conf_None_eq new_dict_def user_settings_def)
  have g: "fst (Settings_getattr example_env (settings ?s) ''AND_KEY'' ?s) = Inr (Str ''and'')"
    by (simp add: Settings_getattr_default_key [OF d] a)
  note t = reload_settings_other_key [OF h, of "Some ?d" ?s example_env "''AND_KEY''"]
  from t have t1: "reload_settings ''DEBUG'' (Some ?d) ?s = ?s" by blast
  from t have "fst (Settings_getattr example_env
          (settings (reload_settings ''DEBUG'' (Some ?d) ?s))
          ''AND_KEY'' (reload_settings ''DEBUG'' (Some ?d) ?s))
      = fst (Settings_getattr example_env (settings ?s) ''AND_KEY'' ?s)"
    by simp
  then have t2: "fst (Settings_getattr example_env
          (settings (reload_settings ''DEBUG'' (Some ?d) ?s))
          ''AND_KEY'' (reload_settings ''DEBUG'' (Some ?d) ?s)) = Inr (Str ''and'')"
    by (simp only: g)
  from h t1 t2 show ?thesis by (intro conjI)
qed

text \<open>
  C6, as stated, has the new instance built from an empty mapping when the value of the
  notification is \<^verbatim>\<open>None\<close>. It is built from \<^verbatim>\<open>None\<close>, so it reads the mapping of the
  Django settings at its first lookup: with \<^verbatim>\<open>AND_KEY\<close> set to \<^verbatim>\<open>all_of\<close> there, the
  lookup after a notification with \<^verbatim>\<open>None\<close> returns \<^verbatim>\<open>all_of\<close>, where an instance
  built from an empty mapping returns \<^verbatim>\<open>and\<close>.
\<close>

theorem reload_settings_None_counterexample:
  "fst (Settings_getattr example_env
          (settings (reload_settings DJANGO_SETTINGS_KEY None host_process)) ''AND_KEY''
          (reload_settings DJANGO_SETTINGS_KEY None host_process)) = Inr (Str ''all_of'') \<and>
   fst (Settings_getattr example_env
          (settings (reload_settings DJANGO_SETTINGS_KEY
                       (Some (fst (new_dict empty_dict host_process)))
                       (snd (new_dict empty_dict host_process))))
          ''AND_KEY''
          (reload_settings DJANGO_SETTINGS_KEY (Some (fst (new_dict empty_dict host_process)))
             (snd (new_dict empty_dict host_process)))) = Inr (Str ''and'')"
proof -
  let ?s1 = "reload_settings DJANGO_SETTINGS_KEY None host_process"
  let ?s2 = "reload_settings DJANGO_SETTINGS_KEY (Some (fst (new_dict empty_dict host_process)))
               (snd (new_dict empty_dict host_process))"
  have d: "DEFAULT_SETTINGS ''AND_KEY'' = Some (Str ''and'')"
    by (simp add: DEFAULT_SETTINGS_def)
  have u1: "active_user_settings (settings ?s1) ?s1 = example_override"
    by (simp add: active_user_settings_def reload_settings_eq host_process_eq user_settings_def)
  have u2: "active_user_settings (settings ?s2) ?s2 = empty_dict"
    by (simp add: active_user_settings_def reload_settings_eq host_process_eq user_settings_def
        new_dict_def)
  show ?thesis
    by (simp add: Settings_getattr_default_key [OF d] u1 u2)
      (simp add: example_override_def empty_dict_def)
qed

text \<open>
  C6, amended. A notification for the key \<^verbatim>\<open>GRAPHENE_DJANGO_FILTER\<close> binds
  \<^verbatim>\<open>conf.settings\<close> to a new object that stores the value of the notification; no other
  object and no dictionary changes, and the new object is not the one bound before.
  When the value is a mapping, the lookups of the new object use it, so a default key
  that the mapping holds is returned with the new user value. When the value is
  \<^verbatim>\<open>None\<close>, the new object uses the mapping of the Django settings, and the empty
  mapping when they have none.
\<close>

theorem reload_settings_namespace_key:
  assumes "setting = DJANGO_SETTINGS_KEY"
  shows "settings (reload_settings setting val s) = next_ref s \<and>
         heap (reload_settings setting val s) (next_ref s) = \<lparr>attr_user_settings = val\<rparr> \<and>
         (\<forall>r. r \<noteq> next_ref s \<longrightarrow> heap (reload_settings setting val s) r = heap s r) \<and>
         dicts (reload_settings setting val s) = dicts s \<and>
         (settings s < next_ref s \<longrightarrow> settings (reload_settings setting val s) \<noteq> settings s) \<and>
         active_user_settings (settings (reload_settings setting val s))
             (reload_settings setting val s)
           = (case val of
                Some m \<Rightarrow> dicts s m
              | None \<Rightarrow> (case django_settings s of None \<Rightarrow> Map.empty | Some h \<Rightarrow> dicts s h)) \<and>
         (\<forall>m name d v. val = Some m \<longrightarrow> DEFAULT_SETTINGS name = Some d \<longrightarrow>
            dicts s m name = Some v \<longrightarrow>
            fst (Settings_getattr env (settings (reload_settings setting val s)) name
                   (reload_settings setting val s)) = Inr v)"
proof -
  let ?s' = "reload_settings setting val s"
  have eq: "?s' = s\<lparr>heap := (heap s)(next_ref s := \<lparr>attr_user_settings = val\<rparr>),
                    next_ref := Suc (next_ref s), settings := next_ref s\<rparr>"
    using assms by (simp add: reload_settings_eq)
  have a: "settings ?s' = next_ref s" by (simp add: eq)
  have b: "heap ?s' (next_ref s) = \<lparr>attr_user_settings = val\<rparr>" by (simp add: eq)
  have c: "\<forall>r. r \<noteq> next_ref s \<longrightarrow> heap ?s' r = heap s r" by (simp add: eq)
  have c': "dicts ?s' = dicts s" by (simp add: eq)
  have d: "settings s < next_ref s \<longrightarrow> settings ?s' \<noteq> settings s" by (simp add: eq)
  have e: "active_user_settings (settings ?s') ?s'
             = (case val of
                  Some m \<Rightarrow> dicts s m
                | None \<Rightarrow> (case django_settings s of None \<Rightarrow> Map.empty | Some h \<Rightarrow> dicts s h))"
    unfolding eq
    by (simp add: active_user_settings_def user_settings_def new_dict_def split: option.splits)
  have f: "\<forall>m name d v. val = Some m \<longrightarrow> DEFAULT_SETTINGS name = Some d \<longrightarrow>
             dicts s m name = Some v \<longrightarrow>
             fst (Settings_getattr env (settings ?s') name ?s') = Inr v"
  proof (intro allI impI)
    fix m name d v
    assume v: "val = Some m" and dd: "DEFAULT_SETTINGS name = Some d"
      and mv: "dicts s m name = Some v"
    have "active_user_settings (settings ?s') ?s' = dicts s m" using e v by simp
    then show "fst (Settings_getattr env (settings ?s') name ?s') = Inr v"
      by (simp add: Settings_getattr_default_key [OF dd] mv)
  qed
  from a b c c' d e f show ?thesis by (intro conjI)
qed

theorem reload_settings_namespace_key_witness:
  "settings (import_conf None) < next_ref (import_conf None) \<and>
   settings example_process \<noteq> settings (import_conf None) \<and>
   heap example_process (settings example_process) = \<lparr>attr_user_settings = Some 0\<rparr> \<and>
   dicts example_process 0 = example_override \<and>
   DEFAULT_SETTINGS ''AND_KEY'' = Some (Str ''and'') \<and>
   example_override ''AND_KEY'' = Some (Str ''all_of'') \<and>
   fst (Settings_getattr example_env (settings example_process) ''AND_KEY'' example_process)
     = Inr (Str ''all_of'')"
proof -
  let ?s = "snd (new_dict example_override (import_conf None))"
  have k: "DJANGO_SETTINGS_KEY = DJANGO_SETTINGS_KEY" by simp
  have ex: "example_process = reload_settings DJANGO_SETTINGS_KEY (Some 0) ?s"
    by (simp add: example_process_def new_dict_def import_conf_None_eq)
  have w: "settings (import_conf None) < next_ref (import_conf None)"
    by (simp add: import_conf_None_eq)
  have sf: "settings ?s = settings (import_conf None)" "next_ref ?s = next_ref (import_conf None)"
    by (simp_all add: new_dict_def)
  have dc: "dicts ?s 0 = example_override"
    by (simp add: new_dict_def import_conf_None_eq)
  have d: "DEFAULT_SETTINGS ''AND_KEY'' = Some (Str ''and'')"
    by (simp add: DEFAULT_SETTINGS_def)
  have u: "example_override ''AND_KEY'' = Some (Str ''all_of'')"
    by (simp add: example_override_def)
  note t = reload_settings_namespace_key [OF k, of "Some 0" ?s example_env, folded ex, unfolded sf]
  from t have t1: "settings example_process = next_ref (import_conf None)" by blast
  from t have t2: "heap example_process (next_ref (import_conf None))
                     = \<lparr>attr_user_settings = Some 0\<rparr>" by blast
  from t w have t3: "settings example_process \<noteq> settings (import_conf None)" by blast
  from t have "dicts example_process = dicts ?s" by blast
  then have t5: "dicts example_process 0 = example_override" by (simp only: dc)
  from u have "dicts ?s 0 ''AND_KEY'' = Some (Str ''all_of'')" by (simp only: dc)
  with t d have t4: "fst (Settings_getattr example_env (settings example_process) ''AND_KEY''
                              example_process) = Inr (Str ''all_of'')" by blast
  from t2 have t2': "heap example_process (settings example_process)
                     = \<lparr>attr_user_settings = Some 0\<rparr>"
    by (simp only: t1)
  from w t3 t2' t5 d u t4 show ?thesis by (intro conjI)
qed

text \<open>
  C10, as stated, has no change of the host configuration after the first access change
  a resolved value. The instance stores a reference to the mapping object of the Django
  settings, not a copy: after the first lookup of \<^verbatim>\<open>AND_KEY\<close> has returned \<^verbatim>\<open>all_of\<close>,
  an assignment to that key in the mapping of the Django settings, with no
  notification, makes the next lookup return the new value.
\<close>

theorem user_settings_in_place_counterexample:
  "attr_user_settings (heap host_process (settings host_process)) = None \<and>
   django_settings host_process = Some 0 \<and>
   fst (Settings_getattr example_env (settings host_process) ''AND_KEY'' host_process)
     = Inr (Str ''all_of'') \<and>
   fst (Settings_getattr example_env (settings host_process) ''AND_KEY''
          (dict_setitem 0 ''AND_KEY'' (Str ''changed'')
             (snd (Settings_getattr example_env (settings host_process) ''AND_KEY'' host_process))))
     = Inr (Str ''changed'')"
proof -
  let ?s1 = "snd (Settings_getattr example_env (settings host_process) ''AND_KEY'' host_process)"
  have d: "DEFAULT_SETTINGS ''AND_KEY'' = Some (Str ''and'')"
    by (simp add: DEFAULT_SETTINGS_def)
  have n: "attr_user_settings (heap host_process (settings host_process)) = None"
    by (simp add: host_process_eq)
  have h: "django_settings host_process = Some 0"
    by (simp add: host_process_eq)
  have a: "active_user_settings (settings host_process) host_process = example_override"
    by (simp add: active_user_settings_def host_process_eq user_settings_def)
  have g: "fst (Settings_getattr example_env (settings host_process) ''AND_KEY'' host_process)
             = Inr (Str ''all_of'')"
    by (simp add: Settings_getattr_default_key [OF d] a) (simp add: example_override_def)
  have s1: "?s1 = host_process\<lparr>heap := (heap host_process)(0 := \<lparr>attr_user_settings = Some 0\<rparr>)\<rparr>"
    by (simp add: Settings_getattr_default_key [OF d] user_settings_host [OF n h])
      (simp add: host_process_eq)
  have c: "attr_user_settings
             (heap (dict_setitem 0 ''AND_KEY'' (Str ''changed'') ?s1) (settings host_process))
             = Some 0"
    unfolding s1 by (simp add: dict_setitem_def host_process_eq)
  have c2: "dicts (dict_setitem 0 ''AND_KEY'' (Str ''changed'') ?s1) 0 ''AND_KEY''
              = Some (Str ''changed'')"
    unfolding s1 by (simp add: dict_setitem_def)
  have g2: "fst (Settings_getattr example_env (settings host_process) ''AND_KEY''
                   (dict_setitem 0 ''AND_KEY'' (Str ''changed'') ?s1)) = Inr (Str ''changed'')"
    by (simp add: Settings_getattr_cached [OF c] c2 default_not_fixed [OF d] d getitem_def)
  from n h g g2 show ?thesis by (intro conjI)
qed

text \<open>
  C10, amended. Take an instance built from \<^verbatim>\<open>None\<close> whose mapping has not been read.
  A lookup of a fixed name does not read it. The first lookup of a default key stores in
  the instance a reference to the mapping object of the Django settings, or to a new
  empty mapping when they have none. From then on, each lookup on the instance leaves
  the process as it is and resolves against the content of that object: binding the
  attribute of the Django settings to another mapping, or removing it, without a
  notification changes no result, and a default key resolves to what the stored object
  holds for it at the moment of the lookup.
\<close>

theorem user_settings_cached_at_first_get:
  assumes "attr_user_settings (heap s self) = None"
    and "DEFAULT_SETTINGS name = Some d"
  shows "(\<forall>f v. FIXED_SETTINGS env f = Some v \<longrightarrow> snd (Settings_getattr env self f s) = s) \<and>
         attr_user_settings (heap (snd (Settings_getattr env self name s)) self)
           = Some (case django_settings s of None \<Rightarrow> next_dict s | Some h \<Rightarrow> h) \<and>
         dicts (snd (Settings_getattr env self name s))
             (case django_settings s of None \<Rightarrow> next_dict s | Some h \<Rightarrow> h)
           = (case django_settings s of None \<Rightarrow> Map.empty | Some h \<Rightarrow> dicts s h) \<and>
         (\<forall>s2 name'.
            attr_user_settings (heap s2 self)
              = attr_user_settings (heap (snd (Settings_getattr env self name s)) self) \<longrightarrow>
            dicts s2 (case django_settings s of None \<Rightarrow> next_dict s | Some h \<Rightarrow> h)
              = dicts (snd (Settings_getattr env self name s))
                  (case django_settings s of None \<Rightarrow> next_dict s | Some h \<Rightarrow> h) \<longrightarrow>
            Settings_getattr env self name' s2
              = (fst (Settings_getattr env self name' (snd (Settings_getattr env self name s))), s2)) \<and>
         (\<forall>host' name'.
            fst (Settings_getattr env self name'
                   ((snd (Settings_getattr env self name s))\<lparr>django_settings := host'\<rparr>))
              = fst (Settings_getattr env self name' (snd (Settings_getattr env self name s)))) \<and>
         (\<forall>s2 name' d'.
            attr_user_settings (heap s2 self)
              = attr_user_settings (heap (snd (Settings_getattr env self name s)) self) \<longrightarrow>
            DEFAULT_SETTINGS name' = Some d' \<longrightarrow>
            fst (Settings_getattr env self name' s2)
              = Inr (case dicts s2 (case django_settings s of None \<Rightarrow> next_dict s | Some h \<Rightarrow> h)
                            name' of
                       None \<Rightarrow> d' | Some v \<Rightarrow> v))"
proof -
  let ?c = "case django_settings s of None \<Rightarrow> next_dict s | Some h \<Rightarrow> h"
  let ?s1 = "snd (Settings_getattr env self name s)"
  have s1: "?s1 = snd (user_settings self s)"
    by (simp add: Settings_getattr_default_key [OF assms(2)])
  have c: "attr_user_settings (heap ?s1 self) = Some ?c"
    unfolding s1 using assms(1)
    by (cases "django_settings s") (simp_all add: user_settings_host user_settings_no_host)
  have cont: "dicts ?s1 ?c = (case django_settings s of None \<Rightarrow> Map.empty | Some h \<Rightarrow> dicts s h)"
    unfolding s1 using assms(1)
    by (cases "django_settings s") (simp_all add: user_settings_host user_settings_no_host)
  have dep: "Settings_getattr env self name' s2
               = (fst (Settings_getattr env self name' ?s1), s2)"
    if "attr_user_settings (heap s2 self) = Some ?c" and "dicts s2 ?c = dicts ?s1 ?c"
    for s2 :: process and name' :: string
    by (simp only: Settings_getattr_cached [OF that(1)] Settings_getattr_cached [OF c] fst_conv
        that(2))
  have a: "\<forall>f v. FIXED_SETTINGS env f = Some v \<longrightarrow> snd (Settings_getattr env self f s) = s"
    by (simp add: Settings_getattr_fixed_key)
  have b: "\<forall>s2 name'. attr_user_settings (heap s2 self) = attr_user_settings (heap ?s1 self) \<longrightarrow>
             dicts s2 ?c = dicts ?s1 ?c \<longrightarrow>
             Settings_getattr env self name' s2 = (fst (Settings_getattr env self name' ?s1), s2)"
  proof (intro allI impI)
    fix s2 :: process and name' :: string
    assume "attr_user_settings (heap s2 self) = attr_user_settings (heap ?s1 self)"
      and dd: "dicts s2 ?c = dicts ?s1 ?c"
    then have "attr_user_settings (heap s2 self) = Some ?c" by (simp only: c)
    from dep [OF this dd]
    show "Settings_getattr env self name' s2 = (fst (Settings_getattr env self name' ?s1), s2)" .
  qed
  have e: "\<forall>host' name'.
             fst (Settings_getattr env self name' (?s1\<lparr>django_settings := host'\<rparr>))
               = fst (Settings_getattr env self name' ?s1)"
  proof (intro allI)
    fix host' name'
    have 1: "attr_user_settings (heap (?s1\<lparr>django_settings := host'\<rparr>) self) = Some ?c"
      using c by simp
    have 2: "dicts (?s1\<lparr>django_settings := host'\<rparr>) ?c = dicts ?s1 ?c" by simp
    from dep [OF 1 2] show "fst (Settings_getattr env self name' (?s1\<lparr>django_settings := host'\<rparr>))
               = fst (Settings_getattr env self name' ?s1)"
      by (simp only: fst_conv)
  qed
  have f: "\<forall>s2 name' d'.
            attr_user_settings (heap s2 self) = attr_user_settings (heap ?s1 self) \<longrightarrow>
            DEFAULT_SETTINGS name' = Some d' \<longrightarrow>
            fst (Settings_getattr env self name' s2)
              = Inr (case dicts s2 ?c name' of None \<Rightarrow> d' | Some v \<Rightarrow> v)"
  proof (intro allI impI)
    fix s2 :: process and name' :: string and d' :: pyval
    assume "attr_user_settings (heap s2 self) = attr_user_settings (heap ?s1 self)"
      and dd: "DEFAULT_SETTINGS name' = Some d'"
    then have 1: "attr_user_settings (heap s2 self) = Some ?c" by (simp only: c)
    show "fst (Settings_getattr env self name' s2)
              = Inr (case dicts s2 ?c name' of None \<Rightarrow> d' | Some v \<Rightarrow> v)"
      by (simp add: Settings_getattr_default_key [OF dd] active_user_settings_cached [OF 1])
  qed
  from a c cont b e f show ?thesis by (intro conjI)
qed

theorem user_settings_cached_at_first_get_witness:
  "attr_user_settings (heap host_process (settings host_process)) = None \<and>
   DEFAULT_SETTINGS ''AND_KEY'' = Some (Str ''and'') \<and>
   attr_user_settings
       (heap (snd (Settings_getattr example_env (settings host_process) ''AND_KEY'' host_process))
          (settings host_process))
     = Some 0 \<and>
   dicts (snd (Settings_getattr example_env (settings host_process) ''AND_KEY'' host_process)) 0
     = example_override \<and>
   fst (Settings_getattr example_env (settings host_process) ''AND_KEY''
          (snd (Settings_getattr example_env (settings host_process) ''AND_KEY'' host_process)))
     = Inr (Str ''all_of'') \<and>
   fst (Settings_getattr example_env (settings host_process) ''AND_KEY''
          ((snd (Settings_getattr example_env (settings host_process) ''AND_KEY'' host_process))
             \<lparr>django_settings := None\<rparr>))
     = Inr (Str ''all_of'')"
proof -
  let ?s1 = "snd (Settings_getattr example_env (settings host_process) ''AND_KEY'' host_process)"
  have n: "attr_user_settings (heap host_process (settings host_process)) = None"
    by (simp add: host_process_eq)
  have d: "DEFAULT_SETTINGS ''AND_KEY'' = Some (Str ''and'')"
    by (simp add: DEFAULT_SETTINGS_def)
  have h: "(case django_settings host_process of None \<Rightarrow> next_dict host_process | Some h \<Rightarrow> h) = 0"
    by (simp add: host_process_eq)
  have h': "(case django_settings host_process of None \<Rightarrow> Map.empty
             | Some h \<Rightarrow> dicts host_process h) = example_override"
    by (simp add: host_process_eq)
  note t = user_settings_cached_at_first_get [OF n d, of example_env, unfolded h h']
  from t have c: "attr_user_settings (heap ?s1 (settings host_process)) = Some 0"
    by blast
  from t have c2: "dicts ?s1 0 = example_override"
    by blast
  have c3: "dicts ?s1 0 ''AND_KEY'' = Some (Str ''all_of'')"
    by (simp only: c2) (simp add: example_override_def)
  have g: "fst (Settings_getattr example_env (settings host_process) ''AND_KEY'' ?s1)
             = Inr (Str ''all_of'')"
    by (simp add: Settings_getattr_cached [OF c] c3 default_not_fixed [OF d] d getitem_def)
  from t have "fst (Settings_getattr example_env (settings host_process) ''AND_KEY''
                      (?s1\<lparr>django_settings := None\<rparr>))
                 = fst (Settings_getattr example_env (settings host_process) ''AND_KEY'' ?s1)"
    by blast
  then have e: "fst (Settings_getattr example_env (settings host_process) ''AND_KEY''
                      (?s1\<lparr>django_settings := None\<rparr>)) = Inr (Str ''all_of'')"
    by (simp only: g)
  from n d c c2 g e show ?thesis by (intro conjI)
qed

text \<open>
  A notification never rebinds the name \<^verbatim>\<open>settings\<close> that input_types.py imported: the
  function assigns to the global of conf.py only.
\<close>

lemma reload_settings_imported_settings:
  "imported_settings (reload_settings setting val s) = imported_settings s"
  by (simp add: reload_settings_def Settings_init_def)

section \<open>Properties of the input types\<close>

lemma map_of_foldl_update:
  "map_of (foldl (\<lambda>d (k, v). AList.update k v d) d es) = map_of d ++ map_of (rev es)"
proof (induction es arbitrary: d)
  case Nil
  show ?case by simp
next
  case (Cons e es)
  obtain k v where e: "e = (k, v)" by (cases e)
  have "map_of (foldl (\<lambda>d (k, v). AList.update k v d) d (e # es))
          = map_of (AList.update k v d) ++ map_of (rev es)"
    by (simp add: e Cons.IH)
  also have "\<dots> = (map_of d)(k \<mapsto> v) ++ map_of (rev es)"
    by (simp add: update_conv')
  also have "\<dots> = map_of d ++ map_of (rev (e # es))"
    by (simp add: e map_add_upd_left fun_eq_iff map_add_def split: option.splits)
  finally show ?case .
qed

lemma map_of_dict_display: "map_of (dict_display es) = map_of (rev es)"
  by (simp add: dict_display_def map_of_foldl_update)

lemma distinct_foldl_update:
  "distinct (map fst d) \<Longrightarrow> distinct (map fst (foldl (\<lambda>d (k, v). AList.update k v d) d es))"
  by (induction es arbitrary: d) (auto simp: distinct_update)

lemma distinct_dict_display: "distinct (map fst (dict_display es))"
  by (simp add: dict_display_def distinct_foldl_update)

lemma yank_fields_from_attrs_names:
  "fst ` set (yank_fields_from_attrs ns) \<subseteq> fst ` set ns"
  by (induction ns rule: yank_fields_from_attrs.induct) (auto split: option.splits)

lemma distinct_yank_fields_from_attrs:
  "distinct (map fst ns) \<Longrightarrow> distinct (map fst (yank_fields_from_attrs ns))"
proof (induction ns rule: yank_fields_from_attrs.induct)
  case 1
  show ?case by simp
next
  case (2 attname a attrs)
  have "attname \<notin> fst ` set (yank_fields_from_attrs attrs)"
    using "2.prems" yank_fields_from_attrs_names [of attrs] by auto
  then show ?case using 2 by (auto split: option.splits)
qed

lemma map_of_yank_fields_from_attrs:
  "distinct (map fst ns) \<Longrightarrow>
   map_of (yank_fields_from_attrs ns) k
     = (case map_of ns k of None \<Rightarrow> None | Some a \<Rightarrow> get_field_as a)"
proof (induction ns rule: yank_fields_from_attrs.induct)
  case 1
  show ?case by simp
next
  case (2 attname a attrs)
  have notin: "attname \<notin> fst ` set attrs" using "2.prems" by auto
  then have "attname \<notin> fst ` set (yank_fields_from_attrs attrs)"
    using yank_fields_from_attrs_names [of attrs] by auto
  then have none: "map_of (yank_fields_from_attrs attrs) attname = None"
    by (simp add: map_of_eq_None_iff)
  show ?case
  proof (cases "get_field_as a")
    case None
    then show ?thesis using 2 none by (cases "k = attname") simp_all
  next
    case (Some f)
    then show ?thesis using 2 by simp
  qed
qed


lemma keys_foldl_update:
  "fst ` set (foldl (\<lambda>d (k, v). AList.update k v d) d es) = fst ` set d \<union> fst ` set es"
proof (induction es arbitrary: d)
  case Nil
  show ?case by simp
next
  case (Cons e es)
  obtain k v where e: "e = (k, v)" by (cases e)
  have "fst ` set (foldl (\<lambda>d (k, v). AList.update k v d) d (e # es))
          = fst ` set (AList.update k v d) \<union> fst ` set es"
    by (simp add: e Cons.IH)
  also have "\<dots> = ({k} \<union> fst ` set d) \<union> fst ` set es"
    by (simp only: dom_update)
  also have "\<dots> = fst ` set d \<union> fst ` set (e # es)"
    by (auto simp: e)
  finally show ?case .
qed

lemma keys_dict_display: "fst ` set (dict_display es) = fst ` set es"
  by (simp add: dict_display_def keys_foldl_update)

lemma list_all_keys_dict_display:
  assumes "\<And>k. k \<in> fst ` set es \<Longrightarrow> Q k"
  shows "list_all (\<lambda>(k, a). Q k) (dict_display es)"
proof -
  have "Q (fst p)" if "p \<in> set (dict_display es)" for p
  proof -
    from that have "fst p \<in> fst ` set (dict_display es)" by (rule imageI)
    then show ?thesis using assms by (simp add: keys_dict_display)
  qed
  then show ?thesis by (simp add: list_all_iff case_prod_beta)
qed

lemma plain_name_not_doc: "plain_name k \<Longrightarrow> k \<noteq> Str ''__doc__''"
  by (cases k) auto

lemma create_search_query_input_type_unfold:
  assumes us: "user_settings (imported_settings s) s = (u, s1)"
  shows "create_search_query_input_type env s =
    type_call ''SearchQueryInputType''
      (dict_display
         [(Str ''__doc__'', Plain (Str ''Input type for creating the `SearchQuery` object.'')),
          (Str ''value'', Unmounted GString True None ''Query value''),
          (Str ''config'',
             Mounted (InputField (Class (Declared ''SearchConfigInputType'')) False None
                      ''Query config'')),
          (resolved_key (dicts s1 u) ''AND_KEY'' (Str ''and''),
             Mounted (InputField (GList (Lazy (Created (next_class s)))) False None
                      ''`And` field'')),
          (resolved_key (dicts s1 u) ''OR_KEY'' (Str ''or''),
             Mounted (InputField (GList (Lazy (Created (next_class s)))) False None
                      ''`Or` field'')),
          (resolved_key (dicts s1 u) ''NOT_KEY'' (Str ''not''),
             Mounted (InputField (GList (Lazy (Created (next_class s)))) False None
                      ''`Not` field''))])
      s1"
proof -
  let ?r = "imported_settings s"
  have again: "user_settings ?r s1 = (u, s1)"
    using user_settings_again [of ?r s] us by simp
  have nc: "next_class s1 = next_class s"
    using user_settings_frame(2) [of ?r s] us by simp
  have act: "active_user_settings ?r s = dicts s1 u" "active_user_settings ?r s1 = dicts s1 u"
    by (simp_all add: active_user_settings_def us again)
  have da: "DEFAULT_SETTINGS ''AND_KEY'' = Some (Str ''and'')"
    and dor: "DEFAULT_SETTINGS ''OR_KEY'' = Some (Str ''or'')"
    and dn: "DEFAULT_SETTINGS ''NOT_KEY'' = Some (Str ''not'')"
    by (simp_all add: DEFAULT_SETTINGS_def)
  have g1: "Settings_getattr env ?r ''AND_KEY'' s
              = (Inr (resolved_key (dicts s1 u) ''AND_KEY'' (Str ''and'')), s1)"
    by (simp add: Settings_getattr_default_key [OF da] us act resolved_key_def)
  have g2: "Settings_getattr env ?r ''OR_KEY'' s1
              = (Inr (resolved_key (dicts s1 u) ''OR_KEY'' (Str ''or'')), s1)"
    by (simp add: Settings_getattr_default_key [OF dor] again act resolved_key_def)
  have g3: "Settings_getattr env ?r ''NOT_KEY'' s1
              = (Inr (resolved_key (dicts s1 u) ''NOT_KEY'' (Str ''not'')), s1)"
    by (simp add: Settings_getattr_default_key [OF dn] again act resolved_key_def)
  show ?thesis
    by (simp add: create_search_query_input_type_def bind_def g1 g2 g3 nc Let_def)
qed

lemma type_call_plain:
  assumes "plain_name ka" and "plain_name ko" and "plain_name kn"
  shows "type_call name
           (dict_display
              [(Str ''__doc__'', Plain (Str doc)),
               (Str ''value'', a1), (Str ''config'', a2), (ka, a3), (ko, a4), (kn, a5)]) s
         = Some (Inr (Created (next_class s)),
                 s\<lparr>classes := (classes s)(next_class s := Some (InputObjectType name
                      (dict_display
                         [(Str ''__doc__'', Plain (Str doc)),
                          (Str ''value'', a1), (Str ''config'', a2), (ka, a3), (ko, a4),
                          (kn, a5)]))),
                   next_class := Suc (next_class s)\<rparr>)"
proof -
  let ?es = "[(Str ''__doc__'', Plain (Str doc)),
              (Str ''value'', a1), (Str ''config'', a2), (ka, a3), (ko, a4), (kn, a5)]"
  have keys: "list_all (\<lambda>(k, a). k = Str ''__doc__'' \<or> plain_name k) (dict_display ?es)"
    by (rule list_all_keys_dict_display) (use assms in auto)
  have doc: "map_of (dict_display ?es) (Str ''__doc__'') = Some (Plain (Str doc))"
    using assms [THEN plain_name_not_doc] by (simp add: map_of_dict_display)
  show ?thesis
    by (simp add: type_call_def keys doc)
qed

lemma descend_self:
  assumes "cs r = Some co"
    and "\<And>k. k \<in> K \<Longrightarrow> \<exists>f. map_of (meta_fields co) k = Some f \<and>
                     item_class (field_type f) = Some (Created r)"
  shows "set path \<subseteq> K \<Longrightarrow> descend cs (Created r) path = Some (Created r)"
proof (induction path)
  case Nil
  show ?case by simp
next
  case (Cons k ks)
  from Cons.prems have "k \<in> K" by simp
  from assms(2) [OF this] obtain f where
    f: "map_of (meta_fields co) k = Some f" "item_class (field_type f) = Some (Created r)"
    by blast
  from Cons have "descend cs (Created r) ks = Some (Created r)" by simp
  then show ?case by (simp add: assms(1) f)
qed

lemma created_class_fields:
  fixes c :: cls
  assumes "k = ka \<or> k = ko \<or> k = kn"
  shows "\<exists>f. map_of (meta_fields (InputObjectType name
          (dict_display
             [(Str ''__doc__'', Plain doc),
              (Str ''value'', Unmounted GString True None dv),
              (Str ''config'', Mounted fc),
              (ka, Mounted (InputField (GList (Lazy c)) False None da)),
              (ko, Mounted (InputField (GList (Lazy c)) False None dor)),
              (kn, Mounted (InputField (GList (Lazy c)) False None dn))]))) k = Some f \<and>
        field_type f = GList (Lazy c)"
  using assms
  by (auto simp add: InputObjectType_def map_of_yank_fields_from_attrs distinct_dict_display
      map_of_dict_display InputField_def)

text \<open>
  C2, as stated, holds for every configuration. With \<^verbatim>\<open>AND_KEY\<close> set to \<^verbatim>\<open>__doc__\<close> the
  entry of the field replaces the docstring in the namespace, and the call of \<^verbatim>\<open>type\<close>
  raises \<^verbatim>\<open>AttributeError\<close>: the factory returns no class.
\<close>

theorem create_search_query_input_type_reserved_counterexample:
  "fst (Settings_getattr example_env (imported_settings doc_process) ''AND_KEY'' doc_process)
     = Inr (Str ''__doc__'') \<and>
   map_option fst (create_search_query_input_type example_env doc_process)
     = Some (Inl (AttributeError
                    (quoted ''InputField'' @ '' object has no attribute ''
                     @ quoted ''expandtabs'')))"
proof -
  let ?r = "imported_settings doc_process"
  have eq: "doc_process =
     \<lparr>django_settings = Some 0, dicts = (\<lambda>r. Map.empty)(0 := doc_override), next_dict = Suc 0,
      heap = (\<lambda>r. \<lparr>attr_user_settings = None\<rparr>),
      next_ref = Suc 0, settings = 0, imported_settings = 0,
      classes = (\<lambda>r. None), next_class = 0\<rparr>"
    by (simp add: doc_process_def import_conf_Some_eq)
  obtain u s1 where us: "user_settings ?r doc_process = (u, s1)"
    by (cases "user_settings ?r doc_process")
  have cont: "dicts s1 u = doc_override"
    using us by (auto simp add: eq user_settings_def)
  have a: "active_user_settings ?r doc_process = doc_override"
    by (simp add: active_user_settings_def us cont)
  have d: "DEFAULT_SETTINGS ''AND_KEY'' = Some (Str ''and'')"
    by (simp add: DEFAULT_SETTINGS_def)
  have g: "fst (Settings_getattr example_env ?r ''AND_KEY'' doc_process) = Inr (Str ''__doc__'')"
    by (simp add: Settings_getattr_default_key [OF d] a) (simp add: doc_override_def)
  have k: "resolved_key doc_override ''AND_KEY'' (Str ''and'') = Str ''__doc__''"
    "resolved_key doc_override ''OR_KEY'' (Str ''or'') = Str ''or''"
    "resolved_key doc_override ''NOT_KEY'' (Str ''not'') = Str ''not''"
    by (simp_all add: resolved_key_def doc_override_def)
  have c: "map_option fst (create_search_query_input_type example_env doc_process)
     = Some (Inl (AttributeError
                    (quoted ''InputField'' @ '' object has no attribute ''
                     @ quoted ''expandtabs'')))"
    by (simp add: create_search_query_input_type_unfold [OF us] cont k type_call_def
        dict_display_def)
  from g c show ?thesis by (intro conjI)
qed

text \<open>
  C2, amended. The three keys always resolve (by lookups on the object that the module's
  name \<^verbatim>\<open>settings\<close> refers to). Whenever the three resolved values are plain names, the
  factory returns a new class; its fields include one under each of the three values,
  and the type of each is a list of the returned class itself. So every path of these
  names, of any length and so of length three and more, leads from the class back to
  the same class.
\<close>

theorem create_search_query_input_type_fields:
  "\<exists>and_key or_key not_key.
     fst (Settings_getattr env (imported_settings s) ''AND_KEY'' s) = Inr and_key \<and>
     fst (Settings_getattr env (imported_settings s) ''OR_KEY'' s) = Inr or_key \<and>
     fst (Settings_getattr env (imported_settings s) ''NOT_KEY'' s) = Inr not_key \<and>
     (plain_name and_key \<and> plain_name or_key \<and> plain_name not_key \<longrightarrow>
        (\<exists>co s'.
           create_search_query_input_type env s = Some (Inr (Created (next_class s)), s') \<and>
           classes s' (next_class s) = Some co \<and>
           map_option field_type (map_of (meta_fields co) and_key)
             = Some (GList (Lazy (Created (next_class s)))) \<and>
           map_option field_type (map_of (meta_fields co) or_key)
             = Some (GList (Lazy (Created (next_class s)))) \<and>
           map_option field_type (map_of (meta_fields co) not_key)
             = Some (GList (Lazy (Created (next_class s)))) \<and>
           (\<forall>path. set path \<subseteq> {and_key, or_key, not_key} \<longrightarrow>
              descend (classes s') (Created (next_class s)) path = Some (Created (next_class s)))))"
proof -
  let ?r = "imported_settings s"
  obtain u s1 where us: "user_settings ?r s = (u, s1)" by (cases "user_settings ?r s")
  let ?ka = "resolved_key (dicts s1 u) ''AND_KEY'' (Str ''and'')"
  let ?ko = "resolved_key (dicts s1 u) ''OR_KEY'' (Str ''or'')"
  let ?kn = "resolved_key (dicts s1 u) ''NOT_KEY'' (Str ''not'')"
  let ?c = "Created (next_class s)"
  let ?ns = "dict_display
             [(Str ''__doc__'', Plain (Str ''Input type for creating the `SearchQuery` object.'')),
              (Str ''value'', Unmounted GString True None ''Query value''),
              (Str ''config'',
                 Mounted (InputField (Class (Declared ''SearchConfigInputType'')) False None
                          ''Query config'')),
              (?ka, Mounted (InputField (GList (Lazy ?c)) False None ''`And` field'')),
              (?ko, Mounted (InputField (GList (Lazy ?c)) False None ''`Or` field'')),
              (?kn, Mounted (InputField (GList (Lazy ?c)) False None ''`Not` field''))]"
  let ?co = "InputObjectType ''SearchQueryInputType'' ?ns"
  let ?s' = "s1\<lparr>classes := (classes s1)(next_class s := Some ?co),
                next_class := Suc (next_class s)\<rparr>"
  have nc: "next_class s1 = next_class s"
    using user_settings_frame(2) [of ?r s] us by simp
  have act: "active_user_settings ?r s = dicts s1 u"
    by (simp add: active_user_settings_def us)
  have da: "DEFAULT_SETTINGS ''AND_KEY'' = Some (Str ''and'')"
    and dor: "DEFAULT_SETTINGS ''OR_KEY'' = Some (Str ''or'')"
    and dn: "DEFAULT_SETTINGS ''NOT_KEY'' = Some (Str ''not'')"
    by (simp_all add: DEFAULT_SETTINGS_def)
  have g1: "fst (Settings_getattr env ?r ''AND_KEY'' s) = Inr ?ka"
    by (simp add: Settings_getattr_default_key [OF da] act resolved_key_def)
  have g2: "fst (Settings_getattr env ?r ''OR_KEY'' s) = Inr ?ko"
    by (simp add: Settings_getattr_default_key [OF dor] act resolved_key_def)
  have g3: "fst (Settings_getattr env ?r ''NOT_KEY'' s) = Inr ?kn"
    by (simp add: Settings_getattr_default_key [OF dn] act resolved_key_def)
  have main: "\<exists>co s'.
           create_search_query_input_type env s = Some (Inr ?c, s') \<and>
           classes s' (next_class s) = Some co \<and>
           map_option field_type (map_of (meta_fields co) ?ka) = Some (GList (Lazy ?c)) \<and>
           map_option field_type (map_of (meta_fields co) ?ko) = Some (GList (Lazy ?c)) \<and>
           map_option field_type (map_of (meta_fields co) ?kn) = Some (GList (Lazy ?c)) \<and>
           (\<forall>path. set path \<subseteq> {?ka, ?ko, ?kn} \<longrightarrow> descend (classes s') ?c path = Some ?c)"
    if plain: "plain_name ?ka" "plain_name ?ko" "plain_name ?kn"
  proof -
    have r1: "create_search_query_input_type env s = Some (Inr ?c, ?s')"
      by (simp only: create_search_query_input_type_unfold [OF us]
          type_call_plain [OF plain] nc)
    have r2: "classes ?s' (next_class s) = Some ?co" by simp
    have fld: "\<exists>f. map_of (meta_fields ?co) k = Some f \<and> field_type f = GList (Lazy ?c)"
      if "k \<in> {?ka, ?ko, ?kn}" for k
      using that by (intro created_class_fields) blast
    have f1: "map_option field_type (map_of (meta_fields ?co) ?ka) = Some (GList (Lazy ?c))"
      using fld [of ?ka] by auto
    have f2: "map_option field_type (map_of (meta_fields ?co) ?ko) = Some (GList (Lazy ?c))"
      using fld [of ?ko] by auto
    have f3: "map_option field_type (map_of (meta_fields ?co) ?kn) = Some (GList (Lazy ?c))"
      using fld [of ?kn] by auto
    have item: "\<exists>f. map_of (meta_fields ?co) k = Some f \<and>
                    item_class (field_type f) = Some (Created (next_class s))"
      if "k \<in> {?ka, ?ko, ?kn}" for k
      using fld [OF that] by auto
    have d: "\<forall>path. set path \<subseteq> {?ka, ?ko, ?kn} \<longrightarrow> descend (classes ?s') ?c path = Some ?c"
    proof (intro allI impI)
      fix path :: "pyval list"
      assume p: "set path \<subseteq> {?ka, ?ko, ?kn}"
      show "descend (classes ?s') ?c path = Some ?c"
        by (rule descend_self
              [where cs = "classes ?s'" and r = "next_class s" and K = "{?ka, ?ko, ?kn}",
               OF r2 _ p])
           (rule item)
    qed
    from r1 r2 f1 f2 f3 d show ?thesis by blast
  qed
  from g1 g2 g3 main show ?thesis by blast
qed

theorem create_search_query_input_type_fields_witness:
  "fst (Settings_getattr example_env (imported_settings host_process) ''AND_KEY'' host_process)
     = Inr (Str ''all_of'') \<and>
   fst (Settings_getattr example_env (imported_settings host_process) ''OR_KEY'' host_process)
     = Inr (Str ''or'') \<and>
   fst (Settings_getattr example_env (imported_settings host_process) ''NOT_KEY'' host_process)
     = Inr (Str ''not'') \<and>
   plain_name (Str ''all_of'') \<and> plain_name (Str ''or'') \<and> plain_name (Str ''not'') \<and>
   (\<exists>co s'. create_search_query_input_type example_env host_process
               = Some (Inr (Created 0), s') \<and>
         classes s' 0 = Some co \<and>
         map_option field_type (map_of (meta_fields co) (Str ''all_of''))
           = Some (GList (Lazy (Created 0))) \<and>
         map_option field_type (map_of (meta_fields co) (Str ''or''))
           = Some (GList (Lazy (Created 0))) \<and>
         map_option field_type (map_of (meta_fields co) (Str ''not''))
           = Some (GList (Lazy (Created 0))) \<and>
         descend (classes s') (Created 0) [Str ''not'', Str ''all_of'', Str ''or'']
           = Some (Created 0))"
proof -
  let ?r = "imported_settings host_process"
  have u: "active_user_settings ?r host_process = example_override"
    by (simp add: active_user_settings_def host_process_eq user_settings_def)
  have da: "DEFAULT_SETTINGS ''AND_KEY'' = Some (Str ''and'')"
    and dor: "DEFAULT_SETTINGS ''OR_KEY'' = Some (Str ''or'')"
    and dn: "DEFAULT_SETTINGS ''NOT_KEY'' = Some (Str ''not'')"
    by (simp_all add: DEFAULT_SETTINGS_def)
  have g1: "fst (Settings_getattr example_env ?r ''AND_KEY'' host_process) = Inr (Str ''all_of'')"
    by (simp add: Settings_getattr_default_key [OF da] u) (simp add: example_override_def)
  have g2: "fst (Settings_getattr example_env ?r ''OR_KEY'' host_process) = Inr (Str ''or'')"
    by (simp add: Settings_getattr_default_key [OF dor] u) (simp add: example_override_def)
  have g3: "fst (Settings_getattr example_env ?r ''NOT_KEY'' host_process) = Inr (Str ''not'')"
    by (simp add: Settings_getattr_default_key [OF dn] u) (simp add: example_override_def)
  have p: "plain_name (Str ''all_of'')" "plain_name (Str ''or'')" "plain_name (Str ''not'')"
    by simp_all
  have nc: "next_class host_process = 0" by (simp add: host_process_eq)
  from create_search_query_input_type_fields [of example_env host_process, unfolded nc g1 g2 g3]
  obtain and_key or_key not_key where
    k: "Inr (Str ''all_of'') = (Inr and_key :: error + pyval)"
      "Inr (Str ''or'') = (Inr or_key :: error + pyval)"
      "Inr (Str ''not'') = (Inr not_key :: error + pyval)"
    and imp: "plain_name and_key \<and> plain_name or_key \<and> plain_name not_key \<longrightarrow>
        (\<exists>co s'.
           create_search_query_input_type example_env host_process
             = Some (Inr (Created 0), s') \<and>
           classes s' 0 = Some co \<and>
           map_option field_type (map_of (meta_fields co) and_key)
             = Some (GList (Lazy (Created 0))) \<and>
           map_option field_type (map_of (meta_fields co) or_key)
             = Some (GList (Lazy (Created 0))) \<and>
           map_option field_type (map_of (meta_fields co) not_key)
             = Some (GList (Lazy (Created 0))) \<and>
           (\<forall>path. set path \<subseteq> {and_key, or_key, not_key} \<longrightarrow>
              descend (classes s') (Created 0) path = Some (Created 0)))"
    by blast
  have ks: "and_key = Str ''all_of''" "or_key = Str ''or''" "not_key = Str ''not''"
    using k by simp_all
  from imp p obtain co s' where
    t: "create_search_query_input_type example_env host_process = Some (Inr (Created 0), s')"
      "classes s' 0 = Some co"
      "map_option field_type (map_of (meta_fields co) (Str ''all_of''))
         = Some (GList (Lazy (Created 0)))"
      "map_option field_type (map_of (meta_fields co) (Str ''or''))
         = Some (GList (Lazy (Created 0)))"
      "map_option field_type (map_of (meta_fields co) (Str ''not''))
         = Some (GList (Lazy (Created 0)))"
      "\<forall>path. set path \<subseteq> {Str ''all_of'', Str ''or'', Str ''not''} \<longrightarrow>
         descend (classes s') (Created 0) path = Some (Created 0)"
    unfolding ks by blast
  have "set [Str ''not'', Str ''all_of'', Str ''or''] \<subseteq> {Str ''all_of'', Str ''or'', Str ''not''}"
    by simp
  with t(6) have d: "descend (classes s') (Created 0) [Str ''not'', Str ''all_of'', Str ''or'']
                       = Some (Created 0)"
    by blast
  from t(1-5) d have e: "\<exists>co s'. create_search_query_input_type example_env host_process
               = Some (Inr (Created 0), s') \<and>
         classes s' 0 = Some co \<and>
         map_option field_type (map_of (meta_fields co) (Str ''all_of''))
           = Some (GList (Lazy (Created 0))) \<and>
         map_option field_type (map_of (meta_fields co) (Str ''or''))
           = Some (GList (Lazy (Created 0))) \<and>
         map_option field_type (map_of (meta_fields co) (Str ''not''))
           = Some (GList (Lazy (Created 0))) \<and>
         descend (classes s') (Created 0) [Str ''not'', Str ''all_of'', Str ''or'']
           = Some (Created 0)"
    by blast
  from g1 g2 g3 p e show ?thesis by (intro conjI)
qed

text \<open>
  C5. When the user mapping renames none of the three keys, as with no user mapping at
  all, the class that the factory returns has exactly the five fields \<^verbatim>\<open>value\<close>,
  \<^verbatim>\<open>config\<close>, \<^verbatim>\<open>and\<close>, \<^verbatim>\<open>or\<close> and \<^verbatim>\<open>not\<close>.
\<close>

theorem create_search_query_input_type_default_fields:
  assumes "active_user_settings (imported_settings s) s ''AND_KEY'' = None"
    and "active_user_settings (imported_settings s) s ''OR_KEY'' = None"
    and "active_user_settings (imported_settings s) s ''NOT_KEY'' = None"
  shows "\<exists>co s'. create_search_query_input_type env s = Some (Inr (Created (next_class s)), s') \<and>
              classes s' (next_class s) = Some co \<and>
              fst ` set (meta_fields co)
                = {Str ''value'', Str ''config'', Str ''and'', Str ''or'', Str ''not''} \<and>
              distinct (map fst (meta_fields co))"
proof -
  let ?r = "imported_settings s"
  obtain u s1 where us: "user_settings ?r s = (u, s1)" by (cases "user_settings ?r s")
  have act: "active_user_settings ?r s = dicts s1 u"
    by (simp add: active_user_settings_def us)
  have nc: "next_class s1 = next_class s"
    using user_settings_frame(2) [of ?r s] us by simp
  have k: "resolved_key (dicts s1 u) ''AND_KEY'' (Str ''and'') = Str ''and''"
    "resolved_key (dicts s1 u) ''OR_KEY'' (Str ''or'') = Str ''or''"
    "resolved_key (dicts s1 u) ''NOT_KEY'' (Str ''not'') = Str ''not''"
    using assms act by (simp_all add: resolved_key_def)
  have p: "plain_name (Str ''and'')" "plain_name (Str ''or'')" "plain_name (Str ''not'')"
    by simp_all
  note unf = create_search_query_input_type_unfold [OF us, of env, unfolded k]
  have r: "create_search_query_input_type env s
             = Some (Inr (Created (next_class s)),
                 s1\<lparr>classes := (classes s1)(next_class s := Some (InputObjectType
                      ''SearchQueryInputType''
          (dict_display
             [(Str ''__doc__'', Plain (Str ''Input type for creating the `SearchQuery` object.'')),
              (Str ''value'', Unmounted GString True None ''Query value''),
              (Str ''config'',
                 Mounted (InputField (Class (Declared ''SearchConfigInputType'')) False None
                          ''Query config'')),
              (Str ''and'',
                 Mounted (InputField (GList (Lazy (Created (next_class s)))) False None
                          ''`And` field'')),
              (Str ''or'',
                 Mounted (InputField (GList (Lazy (Created (next_class s)))) False None
                          ''`Or` field'')),
              (Str ''not'',
                 Mounted (InputField (GList (Lazy (Created (next_class s)))) False None
                          ''`Not` field''))]))),
                   next_class := Suc (next_class s)\<rparr>)"
    by (simp only: unf type_call_plain [OF p] nc)
  show ?thesis
    by (simp add: r InputObjectType_def dict_display_def insert_commute)
qed

theorem create_search_query_input_type_default_fields_witness:
  "active_user_settings (imported_settings (import_conf None)) (import_conf None) ''AND_KEY''
     = None \<and>
   active_user_settings (imported_settings (import_conf None)) (import_conf None) ''OR_KEY''
     = None \<and>
   active_user_settings (imported_settings (import_conf None)) (import_conf None) ''NOT_KEY''
     = None \<and>
   (\<exists>co s'. create_search_query_input_type example_env (import_conf None)
               = Some (Inr (Created 0), s') \<and>
         classes s' 0 = Some co \<and>
         fst ` set (meta_fields co)
           = {Str ''value'', Str ''config'', Str ''and'', Str ''or'', Str ''not''} \<and>
         distinct (map fst (meta_fields co)))"
proof -
  have u: "active_user_settings (imported_settings (import_conf None)) (import_conf None)
             = Map.empty"
    by (simp add: active_user_settings_def import_conf_None_eq user_settings_def new_dict_def)
  have h1: "active_user_settings (imported_settings (import_conf None)) (import_conf None)
              ''AND_KEY'' = None"
    and h2: "active_user_settings (imported_settings (import_conf None)) (import_conf None)
              ''OR_KEY'' = None"
    and h3: "active_user_settings (imported_settings (import_conf None)) (import_conf None)
              ''NOT_KEY'' = None"
    by (simp_all only: u)
  have nc: "next_class (import_conf None) = 0" by (simp add: import_conf_None_eq)
  note t = create_search_query_input_type_default_fields [OF h1 h2 h3, of example_env, unfolded nc]
  from h1 h2 h3 t show ?thesis by (intro conjI)
qed

text \<open>
  C3 says that \<^verbatim>\<open>SearchVectorInputType\<close> has the three fields \<^verbatim>\<open>fields\<close>, \<^verbatim>\<open>config\<close>
  and \<^verbatim>\<open>weight\<close>. The assignment to \<^verbatim>\<open>config\<close> ends with a comma, so the name is bound
  to a tuple and is no field: the class has the two fields \<^verbatim>\<open>fields\<close>, a required list
  of non-null strings, and \<^verbatim>\<open>weight\<close>, an optional \<^verbatim>\<open>SearchVectorWeight\<close>.
\<close>

theorem SearchVectorInputType_fields:
  "map fst (meta_fields SearchVectorInputType) = [Str ''fields'', Str ''weight''] \<and>
   map_of (meta_fields SearchVectorInputType) (Str ''config'') = None \<and>
   map_of (meta_fields SearchVectorInputType) (Str ''fields'')
     = Some \<lparr>field_type = GNonNull (GList (GNonNull GString)), default_value = None,
             description = ''Field names of vector''\<rparr> \<and>
   map_of (meta_fields SearchVectorInputType) (Str ''weight'')
     = Some \<lparr>field_type = Class (Declared ''SearchVectorWeight''), default_value = None,
             description = ''Vector weight''\<rparr>"
  by (simp add: SearchVectorInputType_def InputObjectType_def InputField_def)

text \<open>
  C4 says that \<^verbatim>\<open>SearchRankFilterInputType\<close> has, besides the required \<^verbatim>\<open>vector\<close>,
  \<^verbatim>\<open>query\<close> and \<^verbatim>\<open>lookups\<close> and the optional \<^verbatim>\<open>cover_density\<close> and \<^verbatim>\<open>normalization\<close>,
  an optional field \<^verbatim>\<open>weights\<close> that is a list of floats. The assignment to \<^verbatim>\<open>weights\<close>
  ends with a comma, so the name is bound to a tuple and is no field: the class has the
  other five fields only.
\<close>

theorem SearchRankFilterInputType_fields:
  "map fst (meta_fields (SearchRankFilterInputType q))
     = [Str ''vector'', Str ''query'', Str ''lookups'', Str ''cover_density'',
        Str ''normalization''] \<and>
   map_of (meta_fields (SearchRankFilterInputType q)) (Str ''weights'') = None \<and>
   map_option field_type (map_of (meta_fields (SearchRankFilterInputType q)) (Str ''vector''))
     = Some (GNonNull (Class (Declared ''SearchVectorInputType''))) \<and>
   map_option field_type (map_of (meta_fields (SearchRankFilterInputType q)) (Str ''query''))
     = Some (GNonNull (Class q)) \<and>
   map_option field_type (map_of (meta_fields (SearchRankFilterInputType q)) (Str ''lookups''))
     = Some (GNonNull (Class (Declared ''FloatLookups''))) \<and>
   map_option field_type
       (map_of (meta_fields (SearchRankFilterInputType q)) (Str ''cover_density''))
     = Some GBoolean \<and>
   map_option field_type
       (map_of (meta_fields (SearchRankFilterInputType q)) (Str ''normalization''))
     = Some GInt"
  by (simp add: SearchRankFilterInputType_def InputObjectType_def InputField_def)

text \<open>
  C9. \<^verbatim>\<open>TrigramFilterInputType\<close> has exactly the fields \<^verbatim>\<open>kind\<close>, \<^verbatim>\<open>lookups\<close> and
  \<^verbatim>\<open>value\<close>: \<^verbatim>\<open>kind\<close> is of the enum \<^verbatim>\<open>TrigramSearchKind\<close> with its member
  \<^verbatim>\<open>SIMILARITY\<close> as default value, \<^verbatim>\<open>lookups\<close> is a required \<^verbatim>\<open>FloatLookups\<close> and
  \<^verbatim>\<open>value\<close> is a required string.
\<close>

theorem TrigramFilterInputType_fields:
  "fst ` set (meta_fields TrigramFilterInputType) = {Str ''kind'', Str ''lookups'', Str ''value''} \<and>
   distinct (map fst (meta_fields TrigramFilterInputType)) \<and>
   map_of (meta_fields TrigramFilterInputType) (Str ''kind'')
     = Some \<lparr>field_type = Class (Declared ''TrigramSearchKind''),
             default_value = Some (EnumMember ''TrigramSearchKind'' ''SIMILARITY''),
             description = ''Type of the search using trigrams''\<rparr> \<and>
   map_of TrigramSearchKind ''SIMILARITY'' = Some ''similarity'' \<and>
   map_of (meta_fields TrigramFilterInputType) (Str ''lookups'')
     = Some \<lparr>field_type = GNonNull (Class (Declared ''FloatLookups'')), default_value = None,
             description = ''Available lookups''\<rparr> \<and>
   class_name FloatLookups = ''FloatLookups'' \<and>
   map_of (meta_fields TrigramFilterInputType) (Str ''value'')
     = Some \<lparr>field_type = GNonNull GString, default_value = None,
             description = ''Search value''\<rparr>"
  by (simp add: TrigramFilterInputType_def InputObjectType_def InputField_def
      TrigramSearchKind_def FloatLookups_def)

end
